theory Spec2Isabelle
  imports Complex_Main "HOL-Library.AList" "HOL-Library.Sublist"
begin

section \<open>Values\<close>

text \<open>
  The JSONField columns (\<open>trigger_conditions\<close>, \<open>priority_filter\<close>,
  \<open>time_restrictions\<close>, \<open>configuration\<close>, \<open>metadata\<close>) hold whatever
  \<open>json.loads\<close> produced. A Python dict keeps its keys distinct and in insertion order, so
  it is an association list; numbers are the exact rational a Python int or finite float
  stands for (comparison of Python numbers is exact, NaN is outside the model).
\<close>

datatype json =
    JNull
  | JBool bool
  | JNum rat
  | JStr string
  | JList "json list"
  | JObj "(string \<times> json) list"

datatype py_error = AttributeError | TypeError | KeyError | ValueError | OverflowError

text \<open>Python truth value of a JSON value, as \<open>if x:\<close> and \<open>not x\<close> take it.\<close>

fun truthy :: "json \<Rightarrow> bool" where
  "truthy JNull = False"
| "truthy (JBool b) = b"
| "truthy (JNum q) = (q \<noteq> 0)"
| "truthy (JStr s) = (s \<noteq> [])"
| "truthy (JList xs) = (xs \<noteq> [])"
| "truthy (JObj kvs) = (kvs \<noteq> [])"

text \<open>\<open>d.get(k, dflt)\<close>: only a dict has the method.\<close>

fun dict_get :: "json \<Rightarrow> string \<Rightarrow> json \<Rightarrow> py_error + json" where
  "dict_get (JObj kvs) k dflt = Inr (case map_of kvs k of None \<Rightarrow> dflt | Some v \<Rightarrow> v)"
| "dict_get _ k dflt = Inl AttributeError"

text \<open>\<open>d[k]\<close> with a string key.\<close>

fun getitem :: "json \<Rightarrow> string \<Rightarrow> py_error + json" where
  "getitem (JObj kvs) k = (case map_of kvs k of None \<Rightarrow> Inl KeyError | Some v \<Rightarrow> Inr v)"
| "getitem _ k = Inl TypeError"

text \<open>
  \<open>s in c\<close> for a Python str \<open>s\<close>: element equality on a list, substring on a str,
  key membership on a dict; the other values are not containers.
\<close>

fun str_in :: "string \<Rightarrow> json \<Rightarrow> py_error + bool" where
  "str_in s (JList xs) = Inr (List.member xs (JStr s))"
| "str_in s (JStr t) = Inr (sublist s t)"
| "str_in s (JObj kvs) = Inr (List.member (map fst kvs) s)"
| "str_in s _ = Inl TypeError"

text \<open>The numeric value Python compares a JSON number or bool by (\<open>True == 1\<close>).\<close>

fun num_of :: "json \<Rightarrow> rat option" where
  "num_of (JNum q) = Some q"
| "num_of (JBool b) = Some (if b then 1 else 0)"
| "num_of _ = None"

text \<open>\<open>i == v\<close> for a Python int \<open>i\<close>.\<close>

definition py_eq_int :: "int \<Rightarrow> json \<Rightarrow> bool" where
  "py_eq_int i v = (case num_of v of None \<Rightarrow> False | Some q \<Rightarrow> q = of_int i)"

text \<open>
  \<open>i in c\<close> for a Python int \<open>i\<close>: a dict has only string keys, and \<open>i in "..."\<close>
  raises TypeError like the non-containers.
\<close>

fun int_in :: "int \<Rightarrow> json \<Rightarrow> py_error + bool" where
  "int_in i (JList xs) = Inr (list_ex (py_eq_int i) xs)"
| "int_in i (JObj kvs) = Inr False"
| "int_in i _ = Inl TypeError"

text \<open>\<open>x >= v\<close> and \<open>v <= x\<close> for a Python number \<open>x\<close>.\<close>

definition num_ge :: "rat \<Rightarrow> json \<Rightarrow> py_error + bool" where
  "num_ge x v = (case num_of v of None \<Rightarrow> Inl TypeError | Some q \<Rightarrow> Inr (q \<le> x))"

definition num_le :: "rat \<Rightarrow> json \<Rightarrow> py_error + bool" where
  "num_le x v = (case num_of v of None \<Rightarrow> Inl TypeError | Some q \<Rightarrow> Inr (x \<le> q))"

text \<open>What \<open>for w in c\<close> iterates over.\<close>

fun iterate :: "json \<Rightarrow> py_error + json list" where
  "iterate (JList xs) = Inr xs"
| "iterate (JObj kvs) = Inr (map (\<lambda>kv. JStr (fst kv)) kvs)"
| "iterate (JStr s) = Inr (map (\<lambda>c. JStr [c]) s)"
| "iterate _ = Inl TypeError"

section \<open>Time\<close>

text \<open>
  A datetime is the number of microseconds since 1970-01-01 00:00 on the clock that
  \<open>timezone.now()\<close> reads; a timedelta is a number of microseconds. One call of a
  function of the program reads the clock as one instant \<open>now\<close>.
\<close>

type_synonym datetime = int

text \<open>
  \<open>timedelta(minutes=m)\<close>: a timedelta holds at most 999999999 days, and the constructor
  raises OverflowError beyond that, which is from 1440000000000 minutes on.
\<close>

definition timedelta_minutes :: "nat \<Rightarrow> py_error + int" where
  "timedelta_minutes m =
     (if int m < 1440000000000 then Inr (int m * 60000000) else Inl OverflowError)"

definition hour :: "datetime \<Rightarrow> nat" where
  "hour t = nat ((t div 3600000000) mod 24)"

text \<open>\<open>now.time()\<close>, as microseconds since midnight.\<close>

definition time_of :: "datetime \<Rightarrow> nat" where
  "time_of t = nat (t mod 86400000000)"

text \<open>\<open>now.weekday()\<close>: 0 is Monday; 1970-01-01 was a Thursday.\<close>

definition weekday :: "datetime \<Rightarrow> int" where
  "weekday t = (t div 86400000000 + 3) mod 7"

section \<open>Rules and detection events\<close>

record detection_event =
  ev_id :: nat
  camera_id :: int
  camera_name :: string
  camera_location :: nat
  zone_id :: int
  zone_name :: string
  event_type :: string
  severity :: string
  confidence :: rat

record alert_rule =
  rule_id :: nat
  rule_name :: string
  rule_location :: nat
  trigger_type :: string
  trigger_conditions :: json
  rule_is_active :: bool
  rule_priority :: nat
  cooldown_minutes :: nat
  last_triggered :: "datetime option"

definition severity_order :: "(string \<times> nat) list" where
  "severity_order = [(''low'', 0), (''medium'', 1), (''high'', 2), (''critical'', 3)]"

text \<open>
  \<open>severity_order.get(v, 0)\<close>: a list or dict is unhashable, every other value that is
  not one of the four keys gives the default.
\<close>

fun severity_order_get :: "json \<Rightarrow> py_error + nat" where
  "severity_order_get (JStr s) = Inr (case map_of severity_order s of None \<Rightarrow> 0 | Some n \<Rightarrow> n)"
| "severity_order_get (JList xs) = Inl TypeError"
| "severity_order_get (JObj kvs) = Inl TypeError"
| "severity_order_get _ = Inr 0"

text \<open>
  \<open>window['start'] <= current_hour <= window['end']\<close>: the right comparison, and the
  lookup of \<open>'end'\<close>, happen only when the left one holds.
\<close>

definition window_matches :: "nat \<Rightarrow> json \<Rightarrow> py_error + bool" where
  "window_matches current_hour window =
     (case getitem window ''start'' of
        Inl e \<Rightarrow> Inl e
      | Inr s \<Rightarrow>
          (case num_ge (of_nat current_hour) s of
             Inl e \<Rightarrow> Inl e
           | Inr False \<Rightarrow> Inr False
           | Inr True \<Rightarrow>
               (case getitem window ''end'' of
                  Inl e \<Rightarrow> Inl e
                | Inr e \<Rightarrow> num_le (of_nat current_hour) e)))"

text \<open>\<open>any(... for window in time_windows)\<close> stops at the first true element.\<close>

fun any_window :: "nat \<Rightarrow> json list \<Rightarrow> py_error + bool" where
  "any_window current_hour [] = Inr False"
| "any_window current_hour (w # ws) =
     (case window_matches current_hour w of
        Inl e \<Rightarrow> Inl e
      | Inr True \<Rightarrow> Inr True
      | Inr False \<Rightarrow> any_window current_hour ws)"

text \<open>
  The cooldown test at the head of \<open>should_trigger_alert\<close>: \<open>Inr True\<close> when the
  function returns False there, \<open>Inr False\<close> when it goes on to the conditions, and the
  exception of the \<open>timedelta\<close> constructor, which is only called when
  \<open>last_triggered\<close> is set.
\<close>

definition cooldown_test :: "datetime \<Rightarrow> alert_rule \<Rightarrow> py_error + bool" where
  "cooldown_test now rule =
     (case last_triggered rule of
        None \<Rightarrow> Inr False
      | Some lt \<Rightarrow>
          (case timedelta_minutes (cooldown_minutes rule) of
             Inl e \<Rightarrow> Inl e
           | Inr cooldown \<Rightarrow> Inr (now - lt < cooldown)))"

text \<open>A rule is held back by the cooldown when the test does not let it through.\<close>

definition in_cooldown :: "datetime \<Rightarrow> alert_rule \<Rightarrow> bool" where
  "in_cooldown now rule \<longleftrightarrow> cooldown_test now rule \<noteq> Inr False"

definition should_trigger_alert :: "datetime \<Rightarrow> alert_rule \<Rightarrow> detection_event \<Rightarrow> py_error + bool" where
  "should_trigger_alert now rule detection_event =
     (let conditions = trigger_conditions rule in
      case cooldown_test now rule of
        Inl e \<Rightarrow> Inl e
      | Inr True \<Rightarrow> Inr False
      | Inr False \<Rightarrow>
      if trigger_type rule = ''detection_type'' then
        (case dict_get conditions ''event_types'' (JList []) of
           Inl e \<Rightarrow> Inl e
         | Inr c \<Rightarrow> str_in (event_type detection_event) c)
      else if trigger_type rule = ''severity_level'' then
        (case dict_get conditions ''min_severity'' (JStr ''low'') of
           Inl e \<Rightarrow> Inl e
         | Inr required_severity \<Rightarrow>
             (case severity_order_get (JStr (severity detection_event)) of
                Inl e \<Rightarrow> Inl e
              | Inr a \<Rightarrow>
                  (case severity_order_get required_severity of
                     Inl e \<Rightarrow> Inl e
                   | Inr b \<Rightarrow> Inr (a \<ge> b))))
      else if trigger_type rule = ''confidence_threshold'' then
        (case dict_get conditions ''min_confidence'' (JNum (1 / 2)) of
           Inl e \<Rightarrow> Inl e
         | Inr m \<Rightarrow> num_ge (confidence detection_event) m)
      else if trigger_type rule = ''camera'' then
        (case dict_get conditions ''camera_ids'' (JList []) of
           Inl e \<Rightarrow> Inl e
         | Inr c \<Rightarrow> int_in (camera_id detection_event) c)
      else if trigger_type rule = ''zone'' then
        (case dict_get conditions ''zone_ids'' (JList []) of
           Inl e \<Rightarrow> Inl e
         | Inr c \<Rightarrow> int_in (zone_id detection_event) c)
      else if trigger_type rule = ''time_window'' then
        (case dict_get conditions ''time_windows'' (JList []) of
           Inl e \<Rightarrow> Inl e
         | Inr time_windows \<Rightarrow>
             (case iterate time_windows of
                Inl e \<Rightarrow> Inl e
              | Inr ws \<Rightarrow> any_window (hour now) ws))
      else Inr True)"

section \<open>Time restrictions\<close>

text \<open>
  \<open>datetime.time.fromisoformat\<close> belongs to the Python library and is a parameter of
  the model: \<open>Inl ValueError\<close> for a string it rejects, \<open>Inr (Some t)\<close> for a naive
  time \<open>t\<close> (microseconds since midnight), \<open>Inr None\<close> for a time with a UTC offset.
  \<open>to_time\<close> is the conditional expression around it; its \<open>None\<close> is a value that no
  comparison with the naive \<open>current_time\<close> accepts (an offset-aware time, or a truthy
  JSON value that is not a str), so that the comparisons raise TypeError.
\<close>

definition to_time :: "(string \<Rightarrow> py_error + nat option) \<Rightarrow> json \<Rightarrow> py_error + nat option" where
  "to_time fromisoformat v = (case v of JStr s \<Rightarrow> fromisoformat s | _ \<Rightarrow> Inr None)"

definition is_within_time_restrictions ::
  "(string \<Rightarrow> py_error + nat option) \<Rightarrow> datetime \<Rightarrow> json \<Rightarrow> py_error + bool" where
  "is_within_time_restrictions fromisoformat now time_restrictions =
     (if \<not> truthy time_restrictions then Inr True
      else
        let current_time = time_of now; current_weekday = weekday now in
        case dict_get time_restrictions ''allowed_days'' JNull of
          Inl e \<Rightarrow> Inl e
        | Inr allowed_days \<Rightarrow>
            (case (if truthy allowed_days
                   then (case int_in current_weekday allowed_days of
                           Inl e \<Rightarrow> Inl e
                         | Inr b \<Rightarrow> Inr (\<not> b))
                   else Inr False) of
               Inl e \<Rightarrow> Inl e
             | Inr True \<Rightarrow> Inr False
             | Inr False \<Rightarrow>
                 (case dict_get time_restrictions ''start_time'' JNull of
                    Inl e \<Rightarrow> Inl e
                  | Inr start_time \<Rightarrow>
                      (case dict_get time_restrictions ''end_time'' JNull of
                         Inl e \<Rightarrow> Inl e
                       | Inr end_time \<Rightarrow>
                           if truthy start_time \<and> truthy end_time then
                             (case to_time fromisoformat start_time of
                                Inl e \<Rightarrow> Inl e
                              | Inr start \<Rightarrow>
                                  (case to_time fromisoformat end_time of
                                     Inl e \<Rightarrow> Inl e
                                   | Inr end' \<Rightarrow>
                                       (case (start, end') of
                                          (Some s, Some e) \<Rightarrow>
                                            if s \<le> e then Inr (s \<le> current_time \<and> current_time \<le> e)
                                            else Inr (current_time \<ge> s \<or> current_time \<le> e)
                                        | _ \<Rightarrow> Inl TypeError)))
                           else Inr True))))"

section \<open>Alerts, channels, recipients and the database\<close>

record alert =
  al_id :: nat
  al_detection_event :: detection_event
  al_rule :: nat
  title :: string
  message :: string
  al_priority :: string
  al_status :: string
  created_at :: datetime
  sent_at :: "datetime option"
  acknowledged_at :: "datetime option"
  acknowledged_by :: "nat option"
  resolved_at :: "datetime option"
  resolved_by :: "nat option"
  al_metadata :: json

record notification_channel =
  ch_id :: nat
  ch_name :: string
  channel_type :: string
  configuration :: json
  ch_is_active :: bool
  last_used :: "datetime option"

record user =
  user_id :: nat
  username :: string
  email :: string

record notification_log =
  nl_alert :: nat
  nl_channel :: nat
  recipient :: string
  nl_status :: string
  nl_sent_at :: "datetime option"
  error_message :: string
  external_id :: string
  retry_count :: nat
  nl_metadata :: json

record alert_recipient =
  rcp_user :: user
  rcp_location :: nat
  rcp_channels :: "nat list"
  rcp_is_active :: bool
  priority_filter :: json
  time_restrictions :: json

text \<open>
  The tables. \<open>rules\<close> is in the order of the model's \<open>Meta.ordering\<close>; rules and
  channels are keyed by their id, which a table holds once. Alerts and notification logs
  are only ever appended, and a row of them is addressed by its position: \<open>al_id\<close> is
  the position of the alert.
\<close>

record db =
  rules :: "alert_rule list"
  alerts :: "alert list"
  recipients :: "alert_recipient list"
  channels :: "notification_channel list"
  notification_logs :: "notification_log list"

text \<open>
  What \<open>requests.post\<close> does: an exception with its text, or a response, of which the
  adapter reads the status code, the headers and \<open>response.text[:500]\<close>, the first 500
  characters of the body; the third field is that prefix.
\<close>

datatype http_outcome =
    Response int "string \<Rightarrow> string option" string
  | RequestException string

text \<open>
  The collaborators outside the repository: whether the database accepts the INSERT of
  an alert, the f-string that renders the message, \<open>send_mail\<close> (True when it returns
  without an exception), the header merge and \<open>requests.post\<close> of the webhook adapter
  (given the URL, the alert the payload is built from and the configured headers),
  \<open>time.fromisoformat\<close>, and \<open>str(e)\<close> of an exception.
\<close>

record env =
  storage_accepts :: "alert \<Rightarrow> bool"
  format_message :: "detection_event \<Rightarrow> string"
  send_mail :: "alert \<Rightarrow> string \<Rightarrow> bool"
  requests_post :: "json \<Rightarrow> alert \<Rightarrow> json \<Rightarrow> http_outcome"
  fromisoformat :: "string \<Rightarrow> py_error + nat option"
  exc_str :: "py_error \<Rightarrow> string"

section \<open>The alert factory\<close>

definition EVENT_TYPES :: "(string \<times> string) list" where
  "EVENT_TYPES =
     [(''intrusion'', ''Intrusion''),
      (''theft'', ''Vol''),
      (''suspicious'', ''Comportement suspect''),
      (''abandoned_object'', ''Objet abandonn'' @ [CHR 0xC3, CHR 0xA9]),
      (''accident'', ''Accident''),
      (''fire'', ''Incendie''),
      (''crowd'', ''Attroupement''),
      (''violence'', ''Violence''),
      (''vandalism'', ''Vandalisme''),
      (''weapon'', ''Arme d'' @ [CHR 0xC3, CHR 0xA9] @ ''tect'' @ [CHR 0xC3, CHR 0xA9] @ ''e'')]"

text \<open>Django's \<open>get_FOO_display\<close>: the label of the choice, or the value itself.\<close>

definition get_event_type_display :: "detection_event \<Rightarrow> string" where
  "get_event_type_display ev =
     (case map_of EVENT_TYPES (event_type ev) of None \<Rightarrow> event_type ev | Some l \<Rightarrow> l)"

definition determine_alert_priority :: "alert_rule \<Rightarrow> detection_event \<Rightarrow> string" where
  "determine_alert_priority rule detection_event =
     (if severity detection_event = ''critical'' then ''critical''
      else if severity detection_event = ''high'' then ''high''
      else if severity detection_event = ''medium'' then ''medium''
      else ''low'')"

text \<open>
  \<open>create_alert_from_rule\<close> runs in a transaction and catches every exception: when the
  INSERT is refused nothing is written and the result is None.
\<close>

definition create_alert_from_rule ::
  "env \<Rightarrow> datetime \<Rightarrow> alert_rule \<Rightarrow> detection_event \<Rightarrow> db \<Rightarrow> alert option \<times> db" where
  "create_alert_from_rule env now rule ev d =
     (let priority = determine_alert_priority rule ev;
          alert = \<lparr> al_id = length (alerts d),
                    al_detection_event = ev,
                    al_rule = rule_id rule,
                    title = get_event_type_display ev @ '' - '' @ camera_name ev,
                    message = format_message env ev,
                    al_priority = priority,
                    al_status = ''pending'',
                    created_at = now,
                    sent_at = None,
                    acknowledged_at = None,
                    acknowledged_by = None,
                    resolved_at = None,
                    resolved_by = None,
                    al_metadata = JObj [(''camera_id'', JNum (of_int (camera_id ev))),
                                        (''zone_id'', JNum (of_int (zone_id ev))),
                                        (''confidence'', JNum (confidence ev)),
                                        (''severity'', JStr (severity ev))] \<rparr>
      in if storage_accepts env alert
         then (Some alert, d\<lparr>alerts := alerts d @ [alert]\<rparr>)
         else (None, d))"

section \<open>The notification dispatcher\<close>

definition send_email_notification :: "env \<Rightarrow> alert \<Rightarrow> notification_channel \<Rightarrow> user \<Rightarrow> bool" where
  "send_email_notification env alert channel user = send_mail env alert (email user)"

text \<open>
  No model of the repository gives a User a \<open>profile\<close>, so the default of the phone
  number is None.
\<close>

definition send_sms_notification :: "alert \<Rightarrow> notification_channel \<Rightarrow> user \<Rightarrow> bool" where
  "send_sms_notification alert channel user =
     (case dict_get (configuration channel) ''phone_number'' JNull of
        Inl e \<Rightarrow> False
      | Inr phone \<Rightarrow> truthy phone)"

definition send_webhook_notification ::
  "env \<Rightarrow> alert \<Rightarrow> notification_channel \<Rightarrow> user \<Rightarrow> notification_log \<Rightarrow> bool \<times> notification_log" where
  "send_webhook_notification env alert channel user notification_log =
     (let config = configuration channel in
      case dict_get config ''webhook_url'' JNull of
        Inl e \<Rightarrow> (False, notification_log\<lparr>error_message := exc_str env e\<rparr>)
      | Inr webhook_url \<Rightarrow>
          if \<not> truthy webhook_url then (False, notification_log)
          else
            (case dict_get config ''headers'' (JObj []) of
               Inl e \<Rightarrow> (False, notification_log\<lparr>error_message := exc_str env e\<rparr>)
             | Inr auth_headers \<Rightarrow>
                 (case requests_post env webhook_url alert auth_headers of
                    RequestException msg \<Rightarrow> (False, notification_log\<lparr>error_message := msg\<rparr>)
                  | Response status_code headers text \<Rightarrow>
                      (status_code < 400,
                       notification_log
                         \<lparr> external_id := (case headers ''X-Message-ID'' of None \<Rightarrow> [] | Some v \<Rightarrow> v),
                           nl_metadata := JObj [(''status_code'', JNum (of_int status_code)),
                                                (''response'', JStr text)] \<rparr>))))"

definition send_push_notification :: "alert \<Rightarrow> notification_channel \<Rightarrow> user \<Rightarrow> bool" where
  "send_push_notification alert channel user = True"

text \<open>\<open>channel.save()\<close>: UPDATE of the row with the channel's id, INSERT when there is none.\<close>

definition save_channel :: "notification_channel \<Rightarrow> db \<Rightarrow> db" where
  "save_channel c d =
     (if list_ex (\<lambda>x. ch_id x = ch_id c) (channels d)
      then d\<lparr>channels := map (\<lambda>x. if ch_id x = ch_id c then c else x) (channels d)\<rparr>
      else d\<lparr>channels := channels d @ [c]\<rparr>)"

text \<open>
  The log row is created as pending, the adapter runs, and \<open>save()\<close> writes the row again.
  Every adapter catches its own exceptions, so nothing between the two writes raises.
\<close>

definition send_notification_via_channel ::
  "env \<Rightarrow> datetime \<Rightarrow> alert \<Rightarrow> notification_channel \<Rightarrow> user \<Rightarrow> db \<Rightarrow> db" where
  "send_notification_via_channel env now alert channel user d =
     (let notification_log =
            \<lparr> nl_alert = al_id alert,
              nl_channel = ch_id channel,
              recipient = email user,
              nl_status = ''pending'',
              nl_sent_at = None,
              error_message = [],
              external_id = [],
              retry_count = 0,
              nl_metadata = JObj [] \<rparr>;
          row = length (notification_logs d);
          d1 = d\<lparr>notification_logs := notification_logs d @ [notification_log]\<rparr>;
          (success, log1) =
            (if channel_type channel = ''email''
               then (send_email_notification env alert channel user, notification_log)
             else if channel_type channel = ''sms''
               then (send_sms_notification alert channel user, notification_log)
             else if channel_type channel = ''webhook''
               then send_webhook_notification env alert channel user notification_log
             else if channel_type channel = ''push''
               then (send_push_notification alert channel user, notification_log)
             else (False, notification_log))
      in if success then
           let log2 = log1\<lparr>nl_status := ''sent'', nl_sent_at := Some now\<rparr>;
               d2 = save_channel (channel\<lparr>last_used := Some now\<rparr>) d1
           in d2\<lparr>notification_logs := (notification_logs d2)[row := log2]\<rparr>
         else
           let log2 = log1\<lparr>nl_status := ''failed'', error_message := ''Erreur d'envoi''\<rparr>
           in d1\<lparr>notification_logs := (notification_logs d1)[row := log2]\<rparr>)"

section \<open>The recipient resolver\<close>

text \<open>The first loop of \<open>send_alert_notifications\<close>; an exception leaves it at once.\<close>

fun filter_recipients ::
  "env \<Rightarrow> datetime \<Rightarrow> alert \<Rightarrow> alert_recipient list \<Rightarrow> py_error + alert_recipient list" where
  "filter_recipients env now alert [] = Inr []"
| "filter_recipients env now alert (r # rs) =
     (case (if \<not> truthy (priority_filter r) then Inr True
            else str_in (al_priority alert) (priority_filter r)) of
        Inl e \<Rightarrow> Inl e
      | Inr False \<Rightarrow> filter_recipients env now alert rs
      | Inr True \<Rightarrow>
          (case is_within_time_restrictions (fromisoformat env) now (time_restrictions r) of
             Inl e \<Rightarrow> Inl e
           | Inr False \<Rightarrow> filter_recipients env now alert rs
           | Inr True \<Rightarrow>
               (case filter_recipients env now alert rs of
                  Inl e \<Rightarrow> Inl e
                | Inr frs \<Rightarrow> Inr (r # frs))))"

text \<open>\<open>recipient.channels.filter(is_active=True)\<close>, queried when the inner loop starts.\<close>

definition active_channels :: "db \<Rightarrow> alert_recipient \<Rightarrow> notification_channel list" where
  "active_channels d r =
     filter (\<lambda>c. List.member (rcp_channels r) (ch_id c) \<and> ch_is_active c) (channels d)"

fun send_to_channels ::
  "env \<Rightarrow> datetime \<Rightarrow> alert \<Rightarrow> user \<Rightarrow> notification_channel list \<Rightarrow> db \<Rightarrow> db" where
  "send_to_channels env now alert u [] d = d"
| "send_to_channels env now alert u (c # cs) d =
     send_to_channels env now alert u cs (send_notification_via_channel env now alert c u d)"

fun send_to_recipients ::
  "env \<Rightarrow> datetime \<Rightarrow> alert \<Rightarrow> alert_recipient list \<Rightarrow> db \<Rightarrow> db" where
  "send_to_recipients env now alert [] d = d"
| "send_to_recipients env now alert (r # rs) d =
     send_to_recipients env now alert rs
       (send_to_channels env now alert (rcp_user r) (active_channels d r) d)"

text \<open>
  \<open>send_realtime_alert\<close>, the last call, publishes to the channel layer inside its own
  try/except and writes none of the tables; it is left out. The result is the exception
  that leaves the function, if any.
\<close>

definition send_alert_notifications ::
  "env \<Rightarrow> datetime \<Rightarrow> alert \<Rightarrow> db \<Rightarrow> py_error option \<times> db" where
  "send_alert_notifications env now alert d =
     (let recipients' =
            filter (\<lambda>r. rcp_location r = camera_location (al_detection_event alert) \<and> rcp_is_active r)
                   (recipients d)
      in case filter_recipients env now alert recipients' of
           Inl e \<Rightarrow> (Some e, d)
         | Inr filtered_recipients \<Rightarrow>
             (None, send_to_recipients env now alert filtered_recipients d))"

section \<open>Processing a detection\<close>

text \<open>\<open>rule.save()\<close>: UPDATE of the row with the rule's id, INSERT when there is none.\<close>

definition save_rule :: "alert_rule \<Rightarrow> db \<Rightarrow> db" where
  "save_rule r d =
     (if list_ex (\<lambda>x. rule_id x = rule_id r) (rules d)
      then d\<lparr>rules := map (\<lambda>x. if rule_id x = rule_id r then r else x) (rules d)\<rparr>
      else d\<lparr>rules := rules d @ [r]\<rparr>)"

definition applicable_rules :: "db \<Rightarrow> detection_event \<Rightarrow> alert_rule list" where
  "applicable_rules d ev =
     filter (\<lambda>r. rule_location r = camera_location ev \<and> rule_is_active r) (rules d)"

text \<open>
  The loop over the rule objects that the query returned. The objects are the worker's
  own copies: the cooldown test reads the copy, and \<open>rule.save()\<close> writes the copy back.
  An exception of \<open>should_trigger_alert\<close> or \<open>send_alert_notifications\<close> leaves the loop
  with what has been written so far.
\<close>

fun process_rules ::
  "env \<Rightarrow> datetime \<Rightarrow> detection_event \<Rightarrow> alert_rule list \<Rightarrow> alert list \<Rightarrow> db
     \<Rightarrow> (py_error + alert list) \<times> db" where
  "process_rules env now ev [] alerts_created d = (Inr alerts_created, d)"
| "process_rules env now ev (rule # rest) alerts_created d =
     (case should_trigger_alert now rule ev of
        Inl e \<Rightarrow> (Inl e, d)
      | Inr False \<Rightarrow> process_rules env now ev rest alerts_created d
      | Inr True \<Rightarrow>
          (case create_alert_from_rule env now rule ev d of
             (None, d1) \<Rightarrow> process_rules env now ev rest alerts_created d1
           | (Some alert, d1) \<Rightarrow>
               (case send_alert_notifications env now alert d1 of
                  (Some e, d2) \<Rightarrow> (Inl e, d2)
                | (None, d2) \<Rightarrow>
                    process_rules env now ev rest (alerts_created @ [alert])
                      (save_rule (rule\<lparr>last_triggered := Some now\<rparr>) d2))))"

definition process_detection ::
  "env \<Rightarrow> datetime \<Rightarrow> detection_event \<Rightarrow> db \<Rightarrow> (py_error + alert list) \<times> db" where
  "process_detection env now detection_event d =
     process_rules env now detection_event (applicable_rules d detection_event) [] d"

section \<open>Acknowledging and resolving\<close>










section \<open>Fixtures\<close>

text \<open>
  Rows as \<open>create_demo_data.py\<close> creates them (the rule "Vol" with its cooldown of
  two minutes, the channel "Webhook Central"), a time restriction from 22:00 to 06:00 with
  a parser that reads these two strings, and collaborators whose webhook endpoint answers
  with a given status code; used where a concrete input is needed.
\<close>

definition demo_event :: detection_event where
  "demo_event = \<lparr> ev_id = 1, camera_id = 1, camera_name = ''Cam'', camera_location = 1,
     zone_id = 1, zone_name = ''Zone'', event_type = ''theft'', severity = ''critical'',
     confidence = 9 / 10 \<rparr>"

definition demo_rule :: alert_rule where
  "demo_rule = \<lparr> rule_id = 1, rule_name = ''Vol'', rule_location = 1,
     trigger_type = ''detection_type'',
     trigger_conditions = JObj [(''event_types'', JList [JStr ''theft'']), (''min_confidence'', JNum (7 / 10))],
     rule_is_active = True, rule_priority = 1, cooldown_minutes = 2, last_triggered = None \<rparr>"


definition night_restrictions :: json where
  "night_restrictions = JObj [(''start_time'', JStr ''22:00''), (''end_time'', JStr ''06:00'')]"

definition parse_hh_mm :: "string \<Rightarrow> py_error + nat option" where
  "parse_hh_mm s =
     (if s = ''22:00'' then Inr (Some 79200000000)
      else if s = ''06:00'' then Inr (Some 21600000000)
      else Inl ValueError)"

definition demo_webhook :: notification_channel where
  "demo_webhook = \<lparr> ch_id = 3, ch_name = ''Webhook Central'', channel_type = ''webhook'',
     configuration = JObj [(''webhook_url'', JStr ''https://hooks.example.com/surveillance''),
                           (''headers'', JObj [(''Authorization'', JStr ''Bearer demo_token'')])],
     ch_is_active = True, last_used = None \<rparr>"

definition demo_user :: user where
  "demo_user = \<lparr> user_id = 1, username = ''admin'', email = ''admin@surveillance.local'' \<rparr>"

definition demo_alert :: alert where
  "demo_alert = \<lparr> al_id = 0, al_detection_event = demo_event, al_rule = 1,
     title = ''Vol - Cam'', message = ''Vol'', al_priority = ''critical'', al_status = ''pending'',
     created_at = 0, sent_at = None, acknowledged_at = None, acknowledged_by = None,
     resolved_at = None, resolved_by = None, al_metadata = JObj [] \<rparr>"

definition demo_env :: "int \<Rightarrow> env" where
  "demo_env code = \<lparr> storage_accepts = (\<lambda>a. True), format_message = (\<lambda>e. ''Vol''),
     send_mail = (\<lambda>a r. True),
     requests_post = (\<lambda>url a h. Response code (\<lambda>k. None) ''body''),
     fromisoformat = parse_hh_mm, exc_str = (\<lambda>e. ''error'') \<rparr>"

definition demo_db :: db where
  "demo_db = \<lparr> rules = [], alerts = [demo_alert], recipients = [],
     channels = [demo_webhook], notification_logs = [] \<rparr>"

definition demo_guard :: user where
  "demo_guard = \<lparr> user_id = 2, username = ''guard'', email = ''guard@surveillance.local'' \<rparr>"

definition demo_recipients :: "alert_recipient list" where
  "demo_recipients =
     [\<lparr> rcp_user = demo_user, rcp_location = 1, rcp_channels = [3], rcp_is_active = True,
        priority_filter = JList [], time_restrictions = JObj [] \<rparr>,
      \<lparr> rcp_user = demo_guard, rcp_location = 1, rcp_channels = [3], rcp_is_active = True,
        priority_filter = JList [JStr ''critical''], time_restrictions = JObj [] \<rparr>]"

definition demo_rule2 :: alert_rule where
  "demo_rule2 = \<lparr> rule_id = 2, rule_name = ''Incident'', rule_location = 1,
     trigger_type = ''severity_level'',
     trigger_conditions = JObj [(''min_severity'', JStr ''high'')],
     rule_is_active = True, rule_priority = 2, cooldown_minutes = 10, last_triggered = None \<rparr>"

definition demo_event2 :: detection_event where
  "demo_event2 = \<lparr> ev_id = 2, camera_id = 2, camera_name = ''Cam2'', camera_location = 1,
     zone_id = 2, zone_name = ''Zone2'', event_type = ''theft'', severity = ''high'',
     confidence = 8 / 10 \<rparr>"

definition demo_site :: db where
  "demo_site = \<lparr> rules = [demo_rule, demo_rule2], alerts = [], recipients = demo_recipients,
     channels = [demo_webhook], notification_logs = [] \<rparr>"

definition demo_shop :: db where
  "demo_shop = \<lparr> rules = [demo_rule], alerts = [], recipients = demo_recipients,
     channels = [demo_webhook], notification_logs = [] \<rparr>"


definition demo_first_run :: "(py_error + alert list) \<times> db" where
  "demo_first_run = process_detection (demo_env 200) 7 demo_event demo_shop"

section \<open>The recipient resolver as the specification words it\<close>

text \<open>
  The specification's \<open>resolveRecipients\<close>: the candidates are the active recipients of
  the alert's location; a recipient is kept when its \<open>priority_filter\<close> is empty or
  contains the alert's priority and its time restrictions pass; each one kept is expanded
  to one pair per active channel of its own. These two definitions follow the
  specification; the theorem on \<open>send_alert_notifications\<close> compares the code with them.
\<close>

definition recipient_selected :: "env \<Rightarrow> datetime \<Rightarrow> alert \<Rightarrow> alert_recipient \<Rightarrow> bool" where
  "recipient_selected env now alert r \<longleftrightarrow>
     (\<not> truthy (priority_filter r) \<or> str_in (al_priority alert) (priority_filter r) = Inr True)
     \<and> is_within_time_restrictions (fromisoformat env) now (time_restrictions r) = Inr True"

definition resolve_recipients :: "env \<Rightarrow> datetime \<Rightarrow> alert \<Rightarrow> db \<Rightarrow> (user \<times> notification_channel) list" where
  "resolve_recipients env now alert d =
     concat (map (\<lambda>r. map (\<lambda>c. (rcp_user r, c))
                         (filter (\<lambda>c. ch_id c \<in> set (rcp_channels r) \<and> ch_is_active c) (channels d)))
                 (filter (\<lambda>r. rcp_location r = camera_location (al_detection_event alert)
                              \<and> rcp_is_active r \<and> recipient_selected env now alert r)
                         (recipients d)))"


section \<open>The rule matcher: cooldown, confidence threshold, unknown trigger types\<close>

text \<open>
  C1. For a rule whose \<open>last_triggered\<close> is set: when \<open>cooldown_minutes\<close> is one that
  \<open>timedelta\<close> accepts (below 1440000000000) and \<open>now - last_triggered\<close> is less than the
  cooldown, \<open>should_trigger_alert\<close> returns False, whatever the rule's \<open>trigger_type\<close> and
  \<open>trigger_conditions\<close> and whatever the detection event; from 1440000000000 minutes on
  it raises OverflowError instead, before the times are compared.
\<close>

theorem cooldown_dominates:
  assumes "last_triggered rule = Some lt"
  shows "(cooldown_minutes rule < 1440000000000
            \<and> now - lt < int (cooldown_minutes rule) * 60000000
          \<longrightarrow> should_trigger_alert now rule detection_event = Inr False)
         \<and> (1440000000000 \<le> cooldown_minutes rule
          \<longrightarrow> should_trigger_alert now rule detection_event = Inl OverflowError)"
  using assms
  by (simp add: should_trigger_alert_def cooldown_test_def timedelta_minutes_def)

theorem cooldown_dominates_witness:
  "last_triggered (demo_rule\<lparr>last_triggered := Some 0\<rparr>) = Some 0
   \<and> cooldown_minutes (demo_rule\<lparr>last_triggered := Some 0\<rparr>) < 1440000000000
   \<and> (119999999::int) - 0 < int (cooldown_minutes (demo_rule\<lparr>last_triggered := Some 0\<rparr>)) * 60000000
   \<and> should_trigger_alert 119999999 (demo_rule\<lparr>last_triggered := Some 0\<rparr>) demo_event = Inr False"
  using cooldown_dominates [of "demo_rule\<lparr>last_triggered := Some 0\<rparr>" 0 119999999 demo_event]
  by (simp add: demo_rule_def)

text \<open>
  A rule with a cooldown of 1440000000000 minutes, triggered 7 microseconds ago: the time
  passed is less than the cooldown, and the function raises instead of returning False.
\<close>

theorem cooldown_overflow_counterexample:
  "last_triggered (demo_rule\<lparr>cooldown_minutes := 1440000000000, last_triggered := Some 0\<rparr>) = Some 0
   \<and> (7::int) - 0
       < int (cooldown_minutes (demo_rule\<lparr>cooldown_minutes := 1440000000000, last_triggered := Some 0\<rparr>))
         * 60000000
   \<and> should_trigger_alert 7 (demo_rule\<lparr>cooldown_minutes := 1440000000000, last_triggered := Some 0\<rparr>)
         demo_event = Inl OverflowError"
  by (simp add: demo_rule_def should_trigger_alert_def cooldown_test_def timedelta_minutes_def)

text \<open>
  C6. A rule with \<open>trigger_type = 'confidence_threshold'\<close> that is not in cooldown, whose
  conditions are a dict where \<open>min_confidence\<close> is absent (then the threshold is 0.5) or
  a number, matches exactly when the confidence of the event is at least the threshold; a
  confidence equal to the threshold matches.
\<close>

theorem confidence_threshold_matches:
  assumes "trigger_type rule = ''confidence_threshold''"
    and "\<not> in_cooldown now rule"
    and "trigger_conditions rule = JObj conditions"
    and "map_of conditions ''min_confidence'' = None \<and> m = 1 / 2
         \<or> map_of conditions ''min_confidence'' = Some (JNum m)"
  shows "should_trigger_alert now rule ev = Inr (confidence ev \<ge> m)
         \<and> (confidence ev = m \<longrightarrow> should_trigger_alert now rule ev = Inr True)"
  using assms by (auto simp add: should_trigger_alert_def in_cooldown_def num_ge_def)

theorem confidence_threshold_matches_witness:
  "trigger_type (demo_rule\<lparr>trigger_type := ''confidence_threshold'', trigger_conditions := JObj []\<rparr>) = ''confidence_threshold''
   \<and> \<not> in_cooldown 0 (demo_rule\<lparr>trigger_type := ''confidence_threshold'', trigger_conditions := JObj []\<rparr>)
   \<and> map_of [] ''min_confidence'' = (None :: json option)
   \<and> should_trigger_alert 0 (demo_rule\<lparr>trigger_type := ''confidence_threshold'', trigger_conditions := JObj []\<rparr>)
        (demo_event\<lparr>confidence := 1 / 2\<rparr>) = Inr True
   \<and> should_trigger_alert 0 (demo_rule\<lparr>trigger_type := ''confidence_threshold'', trigger_conditions := JObj []\<rparr>)
        (demo_event\<lparr>confidence := 49 / 100\<rparr>) = Inr False"
  using confidence_threshold_matches
          [of "demo_rule\<lparr>trigger_type := ''confidence_threshold'', trigger_conditions := JObj []\<rparr>"
              0 "[]" "1 / 2" "demo_event\<lparr>confidence := 1 / 2\<rparr>"]
        confidence_threshold_matches
          [of "demo_rule\<lparr>trigger_type := ''confidence_threshold'', trigger_conditions := JObj []\<rparr>"
              0 "[]" "1 / 2" "demo_event\<lparr>confidence := 49 / 100\<rparr>"]
  by (simp add: demo_rule_def in_cooldown_def cooldown_test_def)

text \<open>
  C7. A rule that is not in cooldown and whose \<open>trigger_type\<close> is none of
  \<open>detection_type\<close>, \<open>severity_level\<close>, \<open>confidence_threshold\<close>, \<open>camera\<close>,
  \<open>zone\<close>, \<open>time_window\<close> matches every detection event.
\<close>

theorem unknown_trigger_type_matches:
  assumes "\<not> in_cooldown now rule"
    and "trigger_type rule \<noteq> ''detection_type''"
    and "trigger_type rule \<noteq> ''severity_level''"
    and "trigger_type rule \<noteq> ''confidence_threshold''"
    and "trigger_type rule \<noteq> ''camera''"
    and "trigger_type rule \<noteq> ''zone''"
    and "trigger_type rule \<noteq> ''time_window''"
  shows "should_trigger_alert now rule ev = Inr True"
  using assms by (simp add: should_trigger_alert_def in_cooldown_def)

theorem unknown_trigger_type_matches_witness:
  "\<not> in_cooldown 0 (demo_rule\<lparr>trigger_type := ''slack''\<rparr>)
   \<and> should_trigger_alert 0 (demo_rule\<lparr>trigger_type := ''slack''\<rparr>) (demo_event\<lparr>confidence := 0\<rparr>) = Inr True"
  using unknown_trigger_type_matches [of 0 "demo_rule\<lparr>trigger_type := ''slack''\<rparr>" "demo_event\<lparr>confidence := 0\<rparr>"]
  by (simp add: demo_rule_def in_cooldown_def cooldown_test_def)

section \<open>Time restrictions\<close>

text \<open>
  C5. \<open>is_within_time_restrictions\<close> returns True for empty or absent restrictions. The
  list of allowed weekdays is checked first and on its own: when it is non-empty and does
  not hold the current weekday the result is False, whatever the start and end times.
  Otherwise, when both \<open>start_time\<close> and \<open>end_time\<close> are set and read as times, the
  result is \<open>start <= now <= end\<close> if \<open>start <= end\<close>, and \<open>now >= start or now <= end\<close>
  if \<open>start > end\<close>. The example is the window from 22:00 to 06:00, which passes at 23:00
  and at 02:00 and fails at 12:00.
\<close>

theorem time_restrictions_window:
  "(\<not> truthy tr \<longrightarrow> is_within_time_restrictions fi now tr = Inr True)
   \<and> (kvs \<noteq> [] \<and> map_of kvs ''allowed_days'' = Some (JList ds) \<and> ds \<noteq> []
        \<and> \<not> list_ex (py_eq_int (weekday now)) ds
      \<longrightarrow> is_within_time_restrictions fi now (JObj kvs) = Inr False)
   \<and> (kvs \<noteq> []
        \<and> (map_of kvs ''allowed_days'' = None
            \<or> map_of kvs ''allowed_days'' = Some (JList ds)
               \<and> (ds = [] \<or> list_ex (py_eq_int (weekday now)) ds))
        \<and> map_of kvs ''start_time'' = Some (JStr s) \<and> s \<noteq> [] \<and> fi s = Inr (Some start)
        \<and> map_of kvs ''end_time'' = Some (JStr e) \<and> e \<noteq> [] \<and> fi e = Inr (Some end')
      \<longrightarrow> is_within_time_restrictions fi now (JObj kvs)
            = Inr (if start \<le> end' then start \<le> time_of now \<and> time_of now \<le> end'
                   else time_of now \<ge> start \<or> time_of now \<le> end'))"
  by (auto simp add: is_within_time_restrictions_def to_time_def Let_def)

theorem time_restrictions_window_witness:
  "is_within_time_restrictions parse_hh_mm 82800000000 night_restrictions = Inr True
   \<and> is_within_time_restrictions parse_hh_mm 7200000000 night_restrictions = Inr True
   \<and> is_within_time_restrictions parse_hh_mm 43200000000 night_restrictions = Inr False
   \<and> is_within_time_restrictions parse_hh_mm 43200000000 (JObj []) = Inr True
   \<and> is_within_time_restrictions parse_hh_mm 82800000000
        (JObj [(''allowed_days'', JList [JNum 0]), (''start_time'', JStr ''22:00''), (''end_time'', JStr ''06:00'')])
      = Inr False"
  using time_restrictions_window
          [of "JObj []" parse_hh_mm 82800000000
              "[(''start_time'', JStr ''22:00''), (''end_time'', JStr ''06:00'')]" "[]"
              "''22:00''" 79200000000 "''06:00''" 21600000000]
        time_restrictions_window
          [of "JObj []" parse_hh_mm 7200000000
              "[(''start_time'', JStr ''22:00''), (''end_time'', JStr ''06:00'')]" "[]"
              "''22:00''" 79200000000 "''06:00''" 21600000000]
        time_restrictions_window
          [of "JObj []" parse_hh_mm 43200000000
              "[(''start_time'', JStr ''22:00''), (''end_time'', JStr ''06:00'')]" "[]"
              "''22:00''" 79200000000 "''06:00''" 21600000000]
        time_restrictions_window
          [of "JObj []" parse_hh_mm 82800000000
              "[(''allowed_days'', JList [JNum 0]), (''start_time'', JStr ''22:00''), (''end_time'', JStr ''06:00'')]"
              "[JNum 0]" "''22:00''" 79200000000 "''06:00''" 21600000000]
  by (simp add: night_restrictions_def parse_hh_mm_def time_of_def weekday_def py_eq_int_def)

section \<open>The notification dispatcher\<close>

lemma save_channel_logs [simp]:
  "notification_logs (save_channel c d) = notification_logs d"
  by (simp add: save_channel_def)

lemma webhook_keeps_log_fields:
  "send_webhook_notification env alert channel user l = (ok, l')
   \<Longrightarrow> recipient l' = recipient l \<and> nl_channel l' = nl_channel l \<and> nl_alert l' = nl_alert l
       \<and> retry_count l' = retry_count l \<and> nl_status l' = nl_status l \<and> nl_sent_at l' = nl_sent_at l"
  by (auto simp add: send_webhook_notification_def Let_def
           split: sum.splits if_splits http_outcome.splits)

lemma send_notification_appends:
  "\<exists>l. notification_logs (send_notification_via_channel env now alert channel user d)
         = notification_logs d @ [l]
       \<and> recipient l = email user \<and> nl_channel l = ch_id channel \<and> nl_alert l = al_id alert
       \<and> retry_count l = 0
       \<and> (nl_status l = ''sent'' \<and> nl_sent_at l = Some now
          \<or> nl_status l = ''failed'' \<and> error_message l = ''Erreur d'envoi'')"
proof (cases "channel_type channel = ''webhook''")
  case False
  then show ?thesis
    by (simp add: send_notification_via_channel_def Let_def)
next
  case True
  obtain ok l' where w: "send_webhook_notification env alert channel user
            \<lparr> nl_alert = al_id alert, nl_channel = ch_id channel, recipient = email user,
              nl_status = ''pending'', nl_sent_at = None, error_message = [],
              external_id = [], retry_count = 0, nl_metadata = JObj [] \<rparr> = (ok, l')"
    by (cases "send_webhook_notification env alert channel user
            \<lparr> nl_alert = al_id alert, nl_channel = ch_id channel, recipient = email user,
              nl_status = ''pending'', nl_sent_at = None, error_message = [],
              external_id = [], retry_count = 0, nl_metadata = JObj [] \<rparr>") auto
  from webhook_keeps_log_fields [OF w] True w show ?thesis
    by (simp add: send_notification_via_channel_def Let_def)
qed

lemma save_channel_row:
  "list_ex (\<lambda>x. ch_id x = ch_id c) (channels (save_channel c d))
   \<and> (\<forall>x \<in> set (channels (save_channel c d)). ch_id x = ch_id c \<longrightarrow> x = c)"
  by (auto simp add: save_channel_def list_ex_iff)

lemma webhook_success_iff:
  "fst (send_webhook_notification env alert channel user l) \<longleftrightarrow>
     (\<exists>cfg url code h t.
        configuration channel = JObj cfg \<and> map_of cfg ''webhook_url'' = Some url \<and> truthy url
        \<and> requests_post env url alert (case map_of cfg ''headers'' of None \<Rightarrow> JObj [] | Some v \<Rightarrow> v)
            = Response code h t
        \<and> code < 400)"
proof (cases "configuration channel")
  case (JObj cfg)
  then show ?thesis
    by (auto simp add: send_webhook_notification_def Let_def
             split: option.splits http_outcome.splits)
qed (simp_all add: send_webhook_notification_def)

lemma webhook_dispatch_state:
  assumes "channel_type channel = ''webhook''"
    and "send_webhook_notification env alert channel user
            \<lparr> nl_alert = al_id alert, nl_channel = ch_id channel, recipient = email user,
              nl_status = ''pending'', nl_sent_at = None, error_message = [],
              external_id = [], retry_count = 0, nl_metadata = JObj [] \<rparr> = (ok, l')"
  shows "notification_logs (send_notification_via_channel env now alert channel user d)
           = notification_logs d @
               [if ok then l'\<lparr>nl_status := ''sent'', nl_sent_at := Some now\<rparr>
                else l'\<lparr>nl_status := ''failed'', error_message := ''Erreur d'envoi''\<rparr>]"
    and "ok \<Longrightarrow> channels (send_notification_via_channel env now alert channel user d)
           = channels (save_channel (channel\<lparr>last_used := Some now\<rparr>) d)"
  using assms by (simp_all add: send_notification_via_channel_def Let_def save_channel_def)

text \<open>
  C3. A dispatch through a webhook channel appends one NotificationLog. It ends as
  \<open>sent\<close> exactly when the POST was made (the configuration has a \<open>webhook_url\<close>) and
  answered with an HTTP status below 400; then \<open>sent_at\<close> is set and the channel's row has
  \<open>last_used = now\<close>. In every other case (a status of 400 or more, such as 500, an
  exception, no URL) it ends as \<open>failed\<close> with a non-empty \<open>error_message\<close>.
  \<open>retry_count\<close> stays 0.
\<close>

theorem webhook_dispatch_outcome:
  assumes "channel_type channel = ''webhook''"
  shows "\<exists>l. notification_logs (send_notification_via_channel env now alert channel user d)
               = notification_logs d @ [l]
         \<and> ((nl_status l = ''sent'') =
              (\<exists>cfg url code h t.
                 configuration channel = JObj cfg \<and> map_of cfg ''webhook_url'' = Some url \<and> truthy url
                 \<and> requests_post env url alert
                      (case map_of cfg ''headers'' of None \<Rightarrow> JObj [] | Some v \<Rightarrow> v)
                     = Response code h t
                 \<and> code < 400))
         \<and> (nl_status l = ''sent'' \<longrightarrow>
               nl_sent_at l = Some now
               \<and> list_ex (\<lambda>c. ch_id c = ch_id channel)
                    (channels (send_notification_via_channel env now alert channel user d))
               \<and> (\<forall>c \<in> set (channels (send_notification_via_channel env now alert channel user d)).
                     ch_id c = ch_id channel \<longrightarrow> last_used c = Some now))
         \<and> (nl_status l \<noteq> ''sent'' \<longrightarrow> nl_status l = ''failed'' \<and> error_message l \<noteq> [])
         \<and> retry_count l = 0"
proof -
  let ?l0 = "\<lparr> nl_alert = al_id alert, nl_channel = ch_id channel, recipient = email user,
              nl_status = ''pending'', nl_sent_at = None, error_message = [],
              external_id = [], retry_count = 0, nl_metadata = JObj [] \<rparr>"
  let ?d' = "send_notification_via_channel env now alert channel user d"
  define P where "P \<longleftrightarrow> (\<exists>cfg url code h t.
                 configuration channel = JObj cfg \<and> map_of cfg ''webhook_url'' = Some url \<and> truthy url
                 \<and> requests_post env url alert
                      (case map_of cfg ''headers'' of None \<Rightarrow> JObj [] | Some v \<Rightarrow> v)
                     = Response code h t
                 \<and> code < 400)"
  obtain ok l' where w: "send_webhook_notification env alert channel user ?l0 = (ok, l')"
    by (cases "send_webhook_notification env alert channel user ?l0") auto
  have ok: "ok = P"
    using webhook_success_iff [of env alert channel user ?l0] w unfolding P_def by simp
  have keep: "retry_count l' = 0"
    using w by (auto simp add: send_webhook_notification_def Let_def
                     split: sum.splits if_splits http_outcome.splits)
  note st = webhook_dispatch_state [OF assms w, of now d]
  have goal: "\<exists>l. notification_logs ?d' = notification_logs d @ [l]
         \<and> ((nl_status l = ''sent'') = P)
         \<and> (nl_status l = ''sent'' \<longrightarrow>
               nl_sent_at l = Some now
               \<and> list_ex (\<lambda>c. ch_id c = ch_id channel) (channels ?d')
               \<and> (\<forall>c \<in> set (channels ?d'). ch_id c = ch_id channel \<longrightarrow> last_used c = Some now))
         \<and> (nl_status l \<noteq> ''sent'' \<longrightarrow> nl_status l = ''failed'' \<and> error_message l \<noteq> [])
         \<and> retry_count l = 0"
  proof (cases ok)
    case True
    have row: "list_ex (\<lambda>c. ch_id c = ch_id channel) (channels ?d')
               \<and> (\<forall>c \<in> set (channels ?d'). ch_id c = ch_id channel \<longrightarrow> last_used c = Some now)"
      using save_channel_row [of "channel\<lparr>last_used := Some now\<rparr>" d] st(2) [OF True]
      by auto
    have "notification_logs ?d'
            = notification_logs d @ [l'\<lparr>nl_status := ''sent'', nl_sent_at := Some now\<rparr>]"
      using st(1) True by simp
    moreover have "P" using ok True by simp
    ultimately show ?thesis
      using keep row by simp
  next
    case False
    have "notification_logs ?d'
            = notification_logs d @ [l'\<lparr>nl_status := ''failed'', error_message := ''Erreur d'envoi''\<rparr>]"
      using st(1) False by simp
    moreover have "\<not> P" using ok False by simp
    ultimately show ?thesis
      using keep by simp
  qed
  then show ?thesis unfolding P_def .
qed

theorem webhook_dispatch_outcome_witness:
  "channel_type demo_webhook = ''webhook''
   \<and> (\<exists>l. notification_logs
             (send_notification_via_channel (demo_env 500) 7 demo_alert demo_webhook demo_user demo_db)
            = [l]
          \<and> nl_status l = ''failed'' \<and> error_message l \<noteq> [] \<and> retry_count l = 0)
   \<and> (\<exists>l. notification_logs
             (send_notification_via_channel (demo_env 200) 7 demo_alert demo_webhook demo_user demo_db)
            = [l]
          \<and> nl_status l = ''sent'' \<and> nl_sent_at l = Some 7 \<and> retry_count l = 0)"
proof -
  have h: "channel_type demo_webhook = ''webhook''"
    by (simp add: demo_webhook_def)
  have a: "\<exists>l. notification_logs
             (send_notification_via_channel (demo_env 500) 7 demo_alert demo_webhook demo_user demo_db)
            = [l]
          \<and> nl_status l = ''failed'' \<and> error_message l \<noteq> [] \<and> retry_count l = 0"
    using webhook_dispatch_outcome [OF h, of "demo_env 500" 7 demo_alert demo_user demo_db]
    by (auto simp add: demo_env_def demo_webhook_def demo_db_def)
  have b: "\<exists>l. notification_logs
             (send_notification_via_channel (demo_env 200) 7 demo_alert demo_webhook demo_user demo_db)
            = [l]
          \<and> nl_status l = ''sent'' \<and> nl_sent_at l = Some 7 \<and> retry_count l = 0"
    using webhook_dispatch_outcome [OF h, of "demo_env 200" 7 demo_alert demo_user demo_db]
    by (auto simp add: demo_env_def demo_webhook_def demo_db_def)
  from h a b show ?thesis by blast
qed

text \<open>
  C10. Every dispatch appends one NotificationLog whose \<open>recipient\<close> is the email
  address of the user, whatever the \<open>channel_type\<close> of the channel.
\<close>

theorem log_recipient_is_email:
  "\<exists>l. notification_logs (send_notification_via_channel env now alert channel user d)
         = notification_logs d @ [l]
       \<and> recipient l = email user"
  using send_notification_appends [of env now alert channel user d] by blast

section \<open>The recipient resolver\<close>

lemma filter_recipients_selects:
  "filter_recipients env now alert rs = Inr frs
   \<Longrightarrow> frs = filter (recipient_selected env now alert) rs"
proof (induction rs arbitrary: frs)
  case Nil
  then show ?case by simp
next
  case (Cons r rs)
  then show ?case
    by (auto simp add: recipient_selected_def split: sum.splits bool.splits if_splits)
qed

lemma save_channel_keys:
  assumes "distinct (map ch_id (channels d))"
    and "x \<in> set (channels d)" and "ch_id x = ch_id c" and "ch_is_active x = ch_is_active c"
  shows "map (\<lambda>x. (ch_id x, ch_is_active x)) (channels (save_channel c d))
         = map (\<lambda>x. (ch_id x, ch_is_active x)) (channels d)"
proof -
  have inj: "inj_on ch_id (set (channels d))"
    using assms(1) by (simp add: distinct_map)
  have same: "\<And>y. y \<in> set (channels d) \<Longrightarrow> ch_id y = ch_id c \<Longrightarrow> ch_is_active y = ch_is_active c"
  proof -
    fix y assume "y \<in> set (channels d)" and "ch_id y = ch_id c"
    with inj assms(2,3) have "y = x" by (metis inj_onD)
    with assms(4) show "ch_is_active y = ch_is_active c" by simp
  qed
  have ex: "list_ex (\<lambda>y. ch_id y = ch_id c) (channels d)"
    using assms(2,3) by (auto simp add: list_ex_iff)
  show ?thesis
    using ex same by (auto simp add: save_channel_def)
qed

lemma send_notification_channels:
  "channels (send_notification_via_channel env now alert channel user d) = channels d
   \<or> channels (send_notification_via_channel env now alert channel user d)
      = channels (save_channel (channel\<lparr>last_used := Some now\<rparr>) d)"
  by (auto simp add: send_notification_via_channel_def Let_def save_channel_def split: prod.splits)

lemma send_notification_recipients [simp]:
  "recipients (send_notification_via_channel env now alert channel user d) = recipients d"
  by (auto simp add: send_notification_via_channel_def Let_def save_channel_def split: prod.splits)

lemma send_notification_keys:
  assumes "distinct (map ch_id (channels d))"
    and "(ch_id channel, ch_is_active channel) \<in> set (map (\<lambda>x. (ch_id x, ch_is_active x)) (channels d))"
  shows "map (\<lambda>x. (ch_id x, ch_is_active x))
           (channels (send_notification_via_channel env now alert channel user d))
         = map (\<lambda>x. (ch_id x, ch_is_active x)) (channels d)"
proof -
  from assms(2) obtain x where x: "x \<in> set (channels d)" "ch_id x = ch_id channel"
      "ch_is_active x = ch_is_active channel"
    by auto
  have "map (\<lambda>x. (ch_id x, ch_is_active x)) (channels (save_channel (channel\<lparr>last_used := Some now\<rparr>) d))
         = map (\<lambda>x. (ch_id x, ch_is_active x)) (channels d)"
    using save_channel_keys [OF assms(1) x(1), of "channel\<lparr>last_used := Some now\<rparr>"] x(2,3) by simp
  then show ?thesis
    using send_notification_channels [of env now alert channel user d] by auto
qed


lemma active_channels_ids:
  assumes "map (\<lambda>x. (ch_id x, ch_is_active x)) (channels d')
           = map (\<lambda>x. (ch_id x, ch_is_active x)) (channels d)"
  shows "map ch_id (active_channels d' r) = map ch_id (active_channels d r)"
proof -
  have h: "map ch_id (filter (\<lambda>c. List.member (rcp_channels r) (ch_id c) \<and> ch_is_active c) cs)
        = map fst (filter (\<lambda>k. List.member (rcp_channels r) (fst k) \<and> snd k)
                     (map (\<lambda>x. (ch_id x, ch_is_active x)) cs))" for cs
    by (induction cs) auto
  show ?thesis
    unfolding active_channels_def h assms ..
qed

lemma active_channels_in_keys:
  "c \<in> set (active_channels d r)
   \<Longrightarrow> (ch_id c, ch_is_active c) \<in> set (map (\<lambda>x. (ch_id x, ch_is_active x)) (channels d))"
  by (auto simp add: active_channels_def)

lemma send_to_channels_logs:
  assumes "distinct (map ch_id (channels d))"
    and "\<forall>c \<in> set cs. (ch_id c, ch_is_active c)
                         \<in> set (map (\<lambda>x. (ch_id x, ch_is_active x)) (channels d))"
  shows "(\<exists>ls. notification_logs (send_to_channels env now alert u cs d) = notification_logs d @ ls
               \<and> map (\<lambda>l. (recipient l, nl_channel l)) ls = map (\<lambda>c. (email u, ch_id c)) cs)
         \<and> map (\<lambda>x. (ch_id x, ch_is_active x)) (channels (send_to_channels env now alert u cs d))
           = map (\<lambda>x. (ch_id x, ch_is_active x)) (channels d)
         \<and> recipients (send_to_channels env now alert u cs d) = recipients d"
  using assms
proof (induction cs arbitrary: d)
  case Nil
  then show ?case by simp
next
  case (Cons c cs)
  let ?d1 = "send_notification_via_channel env now alert c u d"
  have k: "map (\<lambda>x. (ch_id x, ch_is_active x)) (channels ?d1)
           = map (\<lambda>x. (ch_id x, ch_is_active x)) (channels d)"
    using send_notification_keys [of d c env now alert u] Cons.prems by simp
  have "map ch_id (channels ?d1) = map fst (map (\<lambda>x. (ch_id x, ch_is_active x)) (channels ?d1))"
    by simp
  also have "\<dots> = map ch_id (channels d)"
    unfolding k by simp
  finally have dist: "distinct (map ch_id (channels ?d1))"
    using Cons.prems(1) by simp
  have mem: "\<forall>c \<in> set cs. (ch_id c, ch_is_active c)
                         \<in> set (map (\<lambda>x. (ch_id x, ch_is_active x)) (channels ?d1))"
    unfolding k using Cons.prems(2) by simp
  note ih = Cons.IH [OF dist mem]
  obtain l where l: "notification_logs ?d1 = notification_logs d @ [l]"
      "recipient l = email u" "nl_channel l = ch_id c"
    using send_notification_appends [of env now alert c u d] by blast
  from ih obtain ls where ls:
      "notification_logs (send_to_channels env now alert u cs ?d1) = notification_logs ?d1 @ ls"
      "map (\<lambda>l. (recipient l, nl_channel l)) ls = map (\<lambda>c. (email u, ch_id c)) cs"
    by blast
  have "notification_logs (send_to_channels env now alert u (c # cs) d)
          = notification_logs d @ (l # ls)
        \<and> map (\<lambda>l. (recipient l, nl_channel l)) (l # ls) = map (\<lambda>c. (email u, ch_id c)) (c # cs)"
    using l ls by simp
  then have "\<exists>ls'. notification_logs (send_to_channels env now alert u (c # cs) d)
          = notification_logs d @ ls'
        \<and> map (\<lambda>l. (recipient l, nl_channel l)) ls' = map (\<lambda>c. (email u, ch_id c)) (c # cs)"
    by blast
  then show ?case
    using ih k by simp
qed

lemma send_to_recipients_logs:
  assumes "distinct (map ch_id (channels d))"
  shows "\<exists>ls. notification_logs (send_to_recipients env now alert rs d) = notification_logs d @ ls
             \<and> map (\<lambda>l. (recipient l, nl_channel l)) ls
               = concat (map (\<lambda>r. map (\<lambda>i. (email (rcp_user r), i)) (map ch_id (active_channels d r))) rs)"
  using assms
proof (induction rs arbitrary: d)
  case Nil
  then show ?case by simp
next
  case (Cons r rs)
  let ?d1 = "send_to_channels env now alert (rcp_user r) (active_channels d r) d"
  have mem: "\<forall>c \<in> set (active_channels d r). (ch_id c, ch_is_active c)
                         \<in> set (map (\<lambda>x. (ch_id x, ch_is_active x)) (channels d))"
    using active_channels_in_keys by blast
  note sc = send_to_channels_logs [OF Cons.prems mem, of env now alert "rcp_user r"]
  from sc have k: "map (\<lambda>x. (ch_id x, ch_is_active x)) (channels ?d1)
           = map (\<lambda>x. (ch_id x, ch_is_active x)) (channels d)"
    by simp
  have "map ch_id (channels ?d1) = map fst (map (\<lambda>x. (ch_id x, ch_is_active x)) (channels ?d1))"
    by simp
  also have "\<dots> = map ch_id (channels d)"
    unfolding k by simp
  finally have dist: "distinct (map ch_id (channels ?d1))"
    using Cons.prems by simp
  from sc obtain ls1 where ls1:
      "notification_logs ?d1 = notification_logs d @ ls1"
      "map (\<lambda>l. (recipient l, nl_channel l)) ls1
       = map (\<lambda>c. (email (rcp_user r), ch_id c)) (active_channels d r)"
    by blast
  from Cons.IH [OF dist] obtain ls2 where ls2:
      "notification_logs (send_to_recipients env now alert rs ?d1) = notification_logs ?d1 @ ls2"
      "map (\<lambda>l. (recipient l, nl_channel l)) ls2
       = concat (map (\<lambda>r. map (\<lambda>i. (email (rcp_user r), i)) (map ch_id (active_channels ?d1 r))) rs)"
    by blast
  have same: "\<And>r'. map ch_id (active_channels ?d1 r') = map ch_id (active_channels d r')"
    using active_channels_ids [OF k] .
  have "notification_logs (send_to_recipients env now alert (r # rs) d)
          = notification_logs d @ (ls1 @ ls2)
        \<and> map (\<lambda>l. (recipient l, nl_channel l)) (ls1 @ ls2)
          = concat (map (\<lambda>r. map (\<lambda>i. (email (rcp_user r), i)) (map ch_id (active_channels d r))) (r # rs))"
    using ls1 ls2 same by (simp add: comp_def)
  then show ?case by blast
qed

text \<open>
  C4. When \<open>send_alert_notifications\<close> returns without an exception (and channel ids are
  unique, as a primary key is), the NotificationLogs it appends are, in order, one per pair
  of the specification's \<open>resolve_recipients\<close>: the active recipients of the alert's
  location whose \<open>priority_filter\<close> is empty or contains the alert's priority and whose
  time restrictions pass, each with every active channel of its own. In particular the
  filter loop never keeps a recipient with \<open>priority_filter = ['critical']\<close> for an alert
  of priority \<open>'high'\<close>.
\<close>

theorem recipient_resolution:
  assumes "distinct (map ch_id (channels d))"
    and "send_alert_notifications env now alert d = (None, d')"
  shows "(\<exists>ls. notification_logs d' = notification_logs d @ ls
              \<and> map (\<lambda>l. (recipient l, nl_channel l)) ls
                = map (\<lambda>(u, c). (email u, ch_id c)) (resolve_recipients env now alert d))
         \<and> (\<forall>(r::alert_recipient) rs frs. priority_filter r = JList [JStr ''critical''] \<and> al_priority alert = ''high''
                        \<and> filter_recipients env now alert rs = Inr frs
                      \<longrightarrow> r \<notin> set frs)"
proof -
  let ?cands = "filter (\<lambda>r. rcp_location r = camera_location (al_detection_event alert) \<and> rcp_is_active r)
                       (recipients d)"
  from assms(2) obtain frs where frs: "filter_recipients env now alert ?cands = Inr frs"
      and d': "d' = send_to_recipients env now alert frs d"
    by (auto simp add: send_alert_notifications_def Let_def split: sum.splits)
  have sel: "frs = filter (recipient_selected env now alert) ?cands"
    using filter_recipients_selects [OF frs] .
  from send_to_recipients_logs [OF assms(1), of env now alert frs] obtain ls where ls:
      "notification_logs d' = notification_logs d @ ls"
      "map (\<lambda>l. (recipient l, nl_channel l)) ls
       = concat (map (\<lambda>r. map (\<lambda>i. (email (rcp_user r), i)) (map ch_id (active_channels d r))) frs)"
    unfolding d' by blast
  have "concat (map (\<lambda>r. map (\<lambda>i. (email (rcp_user r), i)) (map ch_id (active_channels d r))) frs)
        = map (\<lambda>(u, c). (email u, ch_id c)) (resolve_recipients env now alert d)"
    unfolding sel
    by (simp add: resolve_recipients_def active_channels_def map_concat comp_def
                  conj_commute conj_left_commute)
  with ls have first: "\<exists>ls. notification_logs d' = notification_logs d @ ls
              \<and> map (\<lambda>l. (recipient l, nl_channel l)) ls
                = map (\<lambda>(u, c). (email u, ch_id c)) (resolve_recipients env now alert d)"
    by simp
  have second: "\<forall>(r::alert_recipient) rs frs. priority_filter r = JList [JStr ''critical''] \<and> al_priority alert = ''high''
                        \<and> filter_recipients env now alert rs = Inr frs
                      \<longrightarrow> r \<notin> set frs"
  proof (intro allI impI)
    fix r :: alert_recipient and rs frs'
    assume a: "priority_filter r = JList [JStr ''critical''] \<and> al_priority alert = ''high''
                        \<and> filter_recipients env now alert rs = Inr frs'"
    then have "frs' = filter (recipient_selected env now alert) rs"
      using filter_recipients_selects by blast
    moreover have "\<not> recipient_selected env now alert r"
      using a by (simp add: recipient_selected_def)
    ultimately show "r \<notin> set frs'" by simp
  qed
  from first second show ?thesis by blast
qed

theorem recipient_resolution_witness:
  "distinct (map ch_id (channels (demo_db\<lparr>recipients := demo_recipients\<rparr>)))
   \<and> fst (send_alert_notifications (demo_env 200) 7 (demo_alert\<lparr>al_priority := ''high''\<rparr>)
            (demo_db\<lparr>recipients := demo_recipients\<rparr>)) = None
   \<and> map (\<lambda>l. (recipient l, nl_channel l))
        (notification_logs
           (snd (send_alert_notifications (demo_env 200) 7 (demo_alert\<lparr>al_priority := ''high''\<rparr>)
                   (demo_db\<lparr>recipients := demo_recipients\<rparr>))))
      = [(''admin@surveillance.local'', 3)]"
proof -
  let ?d = "demo_db\<lparr>recipients := demo_recipients\<rparr>"
  let ?a = "demo_alert\<lparr>al_priority := ''high''\<rparr>"
  let ?r = "send_alert_notifications (demo_env 200) 7 ?a ?d"
  have h1: "distinct (map ch_id (channels ?d))"
    by (simp add: demo_db_def demo_webhook_def)
  have sel: "filter_recipients (demo_env 200) 7 ?a demo_recipients = Inr [hd demo_recipients]"
    by (simp add: demo_recipients_def demo_alert_def is_within_time_restrictions_def)
  have h2: "fst ?r = None"
    using sel
    by (simp add: send_alert_notifications_def demo_db_def demo_recipients_def demo_alert_def
                  demo_event_def)
  then have h3: "?r = (None, snd ?r)"
    by (simp add: prod_eq_iff)
  have res: "map (\<lambda>(u, c). (email u, ch_id c)) (resolve_recipients (demo_env 200) 7 ?a ?d)
             = [(''admin@surveillance.local'', 3)]"
    by (simp add: resolve_recipients_def recipient_selected_def demo_db_def demo_recipients_def
                  demo_alert_def demo_event_def demo_user_def demo_webhook_def
                  is_within_time_restrictions_def)
  from recipient_resolution [OF h1 h3] res
  have "map (\<lambda>l. (recipient l, nl_channel l)) (notification_logs (snd ?r))
        = [(''admin@surveillance.local'', 3)]"
    by (auto simp add: demo_db_def)
  with h1 h2 show ?thesis by simp
qed

section \<open>Processing a detection\<close>

lemma create_alert_result:
  "create_alert_from_rule env now rule ev d = (Some a, d1)
   \<Longrightarrow> alerts d1 = alerts d @ [a] \<and> rules d1 = rules d \<and> al_rule a = rule_id rule"
  "create_alert_from_rule env now rule ev d = (None, d1) \<Longrightarrow> d1 = d"
  by (auto simp add: create_alert_from_rule_def Let_def split: if_splits)

lemma send_notification_alerts_rules:
  "alerts (send_notification_via_channel env now alert channel user d) = alerts d
   \<and> rules (send_notification_via_channel env now alert channel user d) = rules d"
  by (auto simp add: send_notification_via_channel_def Let_def save_channel_def split: prod.splits)

lemma send_to_channels_alerts_rules:
  "alerts (send_to_channels env now alert u cs d) = alerts d
   \<and> rules (send_to_channels env now alert u cs d) = rules d"
  by (induction cs arbitrary: d) (simp_all add: send_notification_alerts_rules)

lemma send_to_recipients_alerts_rules:
  "alerts (send_to_recipients env now alert rs d) = alerts d
   \<and> rules (send_to_recipients env now alert rs d) = rules d"
  by (induction rs arbitrary: d) (simp_all add: send_to_channels_alerts_rules)

lemma send_alert_notifications_alerts_rules:
  "send_alert_notifications env now alert d = (r, d')
   \<Longrightarrow> alerts d' = alerts d \<and> rules d' = rules d"
  by (auto simp add: send_alert_notifications_def Let_def send_to_recipients_alerts_rules
           split: sum.splits)

lemma save_rule_alerts [simp]: "alerts (save_rule r d) = alerts d"
  by (simp add: save_rule_def)

lemma save_rule_rows:
  "r' \<in> set (rules (save_rule r d)) \<Longrightarrow> r' \<in> set (rules d) \<or> r' = r"
  by (auto simp add: save_rule_def split: if_splits)

lemma save_rule_row:
  "r' \<in> set (rules (save_rule r d)) \<Longrightarrow> rule_id r' = rule_id r \<Longrightarrow> r' = r"
  by (auto simp add: save_rule_def list_ex_iff split: if_splits)

lemma process_rules_inv:
  "process_rules env now ev rs acc d = (res, d')
   \<Longrightarrow> \<exists>new. alerts d' = alerts d @ new
        \<and> (\<forall>created. res = Inr created \<longrightarrow> created = acc @ new)
        \<and> (\<forall>a \<in> set new. \<exists>r \<in> set rs. al_rule a = rule_id r
                                       \<and> should_trigger_alert now r ev = Inr True)
        \<and> (\<forall>r' \<in> set (rules d'). r' \<in> set (rules d)
               \<or> last_triggered r' = Some now \<and> (\<exists>a \<in> set new. al_rule a = rule_id r'))
        \<and> (\<forall>created. res = Inr created \<longrightarrow>
               (\<forall>a \<in> set new. \<forall>r' \<in> set (rules d'). rule_id r' = al_rule a
                                  \<longrightarrow> last_triggered r' = Some now))"
proof (induction rs arbitrary: acc d)
  case Nil
  then show ?case by auto
next
  case (Cons rule rest)
  show ?case
  proof (cases "should_trigger_alert now rule ev")
    case (Inl e)
    with Cons.prems show ?thesis by auto
  next
    case (Inr b)
    show ?thesis
    proof (cases b)
      case False
      with Inr Cons.prems have "process_rules env now ev rest acc d = (res, d')" by simp
      from Cons.IH [OF this] show ?thesis by auto
    next
      case True
      obtain oa d1 where c: "create_alert_from_rule env now rule ev d = (oa, d1)"
        by (cases "create_alert_from_rule env now rule ev d") auto
      show ?thesis
      proof (cases oa)
        case None
        with c have "d1 = d" using create_alert_result(2) by blast
        with None c Inr True Cons.prems
        have "process_rules env now ev rest acc d = (res, d')" by simp
        from Cons.IH [OF this] show ?thesis by auto
      next
        case (Some alert)
        with c have a: "alerts d1 = alerts d @ [alert]" "rules d1 = rules d"
            "al_rule alert = rule_id rule"
          using create_alert_result(1) by blast+
        obtain oe d2 where s: "send_alert_notifications env now alert d1 = (oe, d2)"
          by (cases "send_alert_notifications env now alert d1") auto
        have d2: "alerts d2 = alerts d @ [alert]" "rules d2 = rules d"
          using send_alert_notifications_alerts_rules [OF s] a by simp_all
        show ?thesis
        proof (cases oe)
          case (Some e)
          with s c \<open>oa = Some alert\<close> Inr True Cons.prems
          have "res = Inl e" "d' = d2" by simp_all
          with d2 a(3) Inr True show ?thesis by simp
        next
          case None
          let ?d3 = "save_rule (rule\<lparr>last_triggered := Some now\<rparr>) d2"
          from None s c \<open>oa = Some alert\<close> Inr True Cons.prems
          have p: "process_rules env now ev rest (acc @ [alert]) ?d3 = (res, d')" by simp
          from Cons.IH [OF p] obtain new where new:
            "alerts d' = alerts ?d3 @ new"
            "\<forall>created. res = Inr created \<longrightarrow> created = (acc @ [alert]) @ new"
            "\<forall>a \<in> set new. \<exists>r \<in> set rest. al_rule a = rule_id r
                                       \<and> should_trigger_alert now r ev = Inr True"
            "\<forall>r' \<in> set (rules d'). r' \<in> set (rules ?d3)
               \<or> last_triggered r' = Some now \<and> (\<exists>a \<in> set new. al_rule a = rule_id r')"
            "\<forall>created. res = Inr created \<longrightarrow>
               (\<forall>a \<in> set new. \<forall>r' \<in> set (rules d'). rule_id r' = al_rule a
                                  \<longrightarrow> last_triggered r' = Some now)"
            by blast
          have rows3: "\<And>r'. r' \<in> set (rules ?d3)
                        \<Longrightarrow> r' \<in> set (rules d) \<or> r' = rule\<lparr>last_triggered := Some now\<rparr>"
            using save_rule_rows [of _ "rule\<lparr>last_triggered := Some now\<rparr>" d2] d2(2) by auto
          have row3: "\<And>r'. r' \<in> set (rules ?d3) \<Longrightarrow> rule_id r' = rule_id rule
                        \<Longrightarrow> last_triggered r' = Some now"
            using save_rule_row [of _ "rule\<lparr>last_triggered := Some now\<rparr>" d2] by fastforce
          have g1: "alerts d' = alerts d @ (alert # new)"
            using new(1) d2(1) by simp
          have g2: "\<forall>created. res = Inr created \<longrightarrow> created = acc @ (alert # new)"
            using new(2) by simp
          have g3: "\<forall>a \<in> set (alert # new). \<exists>r \<in> set (rule # rest). al_rule a = rule_id r
                                       \<and> should_trigger_alert now r ev = Inr True"
            using new(3) a(3) Inr True by auto
          have g4: "\<forall>r' \<in> set (rules d'). r' \<in> set (rules d)
               \<or> last_triggered r' = Some now \<and> (\<exists>a \<in> set (alert # new). al_rule a = rule_id r')"
          proof
            fix r' assume "r' \<in> set (rules d')"
            with new(4) consider "r' \<in> set (rules ?d3)"
              | "last_triggered r' = Some now \<and> (\<exists>a \<in> set new. al_rule a = rule_id r')"
              by blast
            then show "r' \<in> set (rules d)
               \<or> last_triggered r' = Some now \<and> (\<exists>a \<in> set (alert # new). al_rule a = rule_id r')"
            proof cases
              case 1
              from rows3 [OF 1] show ?thesis using a(3) by auto
            next
              case 2
              then show ?thesis by auto
            qed
          qed
          have g5: "\<forall>created. res = Inr created \<longrightarrow>
               (\<forall>a \<in> set (alert # new). \<forall>r' \<in> set (rules d'). rule_id r' = al_rule a
                                  \<longrightarrow> last_triggered r' = Some now)"
          proof (intro allI impI ballI)
            fix created a r'
            assume res: "res = Inr created" and ain: "a \<in> set (alert # new)"
              and r': "r' \<in> set (rules d')" and id: "rule_id r' = al_rule a"
            show "last_triggered r' = Some now"
            proof (cases "a \<in> set new")
              case True
              with new(5) res r' id show ?thesis by blast
            next
              case False
              with ain have "a = alert" by simp
              with id a(3) have id': "rule_id r' = rule_id rule" by simp
              from new(4) r' consider "r' \<in> set (rules ?d3)" | "last_triggered r' = Some now"
                by blast
              then show ?thesis
              proof cases
                case 1
                from row3 [OF 1 id'] show ?thesis .
              next
                case 2
                then show ?thesis .
              qed
            qed
          qed
          from g1 g2 g3 g4 g5 show ?thesis by blast
        qed
      qed
    qed
  qed
qed

lemma demo_refused_run:
  "map al_rule (alerts (snd (process_detection ((demo_env 200)\<lparr>storage_accepts := (\<lambda>a. al_rule a \<noteq> 1)\<rparr>) 7
                               demo_event demo_site))) = [2]
   \<and> map last_triggered (rules (snd (process_detection ((demo_env 200)\<lparr>storage_accepts := (\<lambda>a. al_rule a \<noteq> 1)\<rparr>) 7
                               demo_event demo_site))) = [None, Some 7]"
  by code_simp

text \<open>
  C8. For a call of \<open>process_detection\<close> with result \<open>res\<close> and final database
  \<open>d'\<close>: the alerts table grows by the alerts created in the call, and when the call
  returns, it returns exactly that list (possibly empty); every rule row of \<open>d'\<close> is
  either a row of the initial table, unchanged, or has \<open>last_triggered = now\<close> and an
  alert created in this call for it, so \<open>last_triggered\<close> is advanced only where the
  creation succeeded. When the creation for a matching rule fails, the loop goes on with
  the remaining rules from the same state, as if the rule had not been there.
\<close>

theorem process_detection_outcome:
  assumes "process_detection env now ev d = (res, d')"
  shows "(\<exists>new. alerts d' = alerts d @ new
             \<and> (\<forall>created. res = Inr created \<longrightarrow> created = new)
             \<and> (\<forall>r' \<in> set (rules d'). r' \<in> set (rules d)
                    \<or> last_triggered r' = Some now \<and> (\<exists>a \<in> set new. al_rule a = rule_id r')))
         \<and> (\<forall>rule rest acc d0.
               should_trigger_alert now rule ev = Inr True
               \<and> fst (create_alert_from_rule env now rule ev d0) = None
               \<longrightarrow> process_rules env now ev (rule # rest) acc d0
                     = process_rules env now ev rest acc d0)"
proof -
  from assms have "process_rules env now ev (applicable_rules d ev) [] d = (res, d')"
    by (simp add: process_detection_def)
  from process_rules_inv [OF this] have first:
    "\<exists>new. alerts d' = alerts d @ new
             \<and> (\<forall>created. res = Inr created \<longrightarrow> created = new)
             \<and> (\<forall>r' \<in> set (rules d'). r' \<in> set (rules d)
                    \<or> last_triggered r' = Some now \<and> (\<exists>a \<in> set new. al_rule a = rule_id r'))"
    by auto
  have second: "\<forall>rule rest acc d0.
               should_trigger_alert now rule ev = Inr True
               \<and> fst (create_alert_from_rule env now rule ev d0) = None
               \<longrightarrow> process_rules env now ev (rule # rest) acc d0
                     = process_rules env now ev rest acc d0"
  proof (intro allI impI)
    fix rule rest acc d0
    assume a: "should_trigger_alert now rule ev = Inr True
               \<and> fst (create_alert_from_rule env now rule ev d0) = None"
    obtain d1 where "create_alert_from_rule env now rule ev d0 = (None, d1)"
      using a by (cases "create_alert_from_rule env now rule ev d0") auto
    moreover from this have "d1 = d0" using create_alert_result(2) by blast
    ultimately show "process_rules env now ev (rule # rest) acc d0
                     = process_rules env now ev rest acc d0"
      using a by simp
  qed
  from first second show ?thesis by blast
qed

theorem process_detection_outcome_witness:
  "process_detection ((demo_env 200)\<lparr>storage_accepts := (\<lambda>a. al_rule a \<noteq> 1)\<rparr>) 7 demo_event demo_site
     = (fst (process_detection ((demo_env 200)\<lparr>storage_accepts := (\<lambda>a. al_rule a \<noteq> 1)\<rparr>) 7 demo_event demo_site),
        snd (process_detection ((demo_env 200)\<lparr>storage_accepts := (\<lambda>a. al_rule a \<noteq> 1)\<rparr>) 7 demo_event demo_site))
   \<and> (\<exists>new. alerts (snd (process_detection ((demo_env 200)\<lparr>storage_accepts := (\<lambda>a. al_rule a \<noteq> 1)\<rparr>) 7
                             demo_event demo_site)) = alerts demo_site @ new
           \<and> map al_rule new = [2])
   \<and> map last_triggered
        (rules (snd (process_detection ((demo_env 200)\<lparr>storage_accepts := (\<lambda>a. al_rule a \<noteq> 1)\<rparr>) 7
                       demo_event demo_site))) = [None, Some 7]"
  (is "?p = (fst ?p, snd ?p) \<and> ?ex \<and> ?lt")
proof -
  have h: "?p = (fst ?p, snd ?p)"
    by (rule prod.collapse [symmetric])
  from process_detection_outcome [OF h, THEN conjunct1] obtain new where
    new: "alerts (snd ?p) = alerts demo_site @ new"
    by (elim exE conjE)
  have e: "alerts demo_site = []"
    by (simp add: demo_site_def)
  have "map al_rule (alerts (snd ?p)) = [2]"
    by (rule demo_refused_run [THEN conjunct1])
  then have "map al_rule ([] @ new) = [2]"
    by (simp only: new e)
  then have "map al_rule new = [2]"
    by (simp only: append_Nil)
  with new have ex: ?ex
    by (intro exI conjI)
  have lt: ?lt
    by (rule demo_refused_run [THEN conjunct2])
  show ?thesis
    by (rule conjI [OF h conjI [OF ex lt]])
qed

section \<open>Two detections for one rule\<close>

lemma held_back_no_match:
  assumes "cooldown_test now rule \<noteq> Inr False"
  shows "should_trigger_alert now rule ev \<noteq> Inr True"
proof (cases "cooldown_test now rule")
  case (Inl e)
  then show ?thesis by (simp add: should_trigger_alert_def)
next
  case (Inr b)
  with assms have "b" by simp
  with Inr show ?thesis by (simp add: should_trigger_alert_def)
qed

text \<open>
  C9. The cooldown gate is a read of the worker's copy of the rule, and
  \<open>last_triggered\<close> is written later, after the alert is created and notified; nothing
  makes the two one atomic step. What holds is the sequential case: when one detection has
  been processed to the end and has created an alert for a rule, a detection processed
  afterwards, within the cooldown of that rule, creates no alert for it.
\<close>

theorem sequential_detections_gated:
  assumes "process_detection env now ev1 d = (Inr created, d1)"
    and "a \<in> set created"
    and "process_detection env now' ev2 d1 = (res2, d2)"
    and "\<forall>r \<in> set (rules d1). rule_id r = al_rule a
           \<longrightarrow> (\<forall>cooldown. timedelta_minutes (cooldown_minutes r) = Inr cooldown
                           \<longrightarrow> now' - now < cooldown)"
  shows "\<exists>new. alerts d2 = alerts d1 @ new \<and> (\<forall>b \<in> set new. al_rule b \<noteq> al_rule a)"
proof -
  from assms(1) have p1: "process_rules env now ev1 (applicable_rules d ev1) [] d = (Inr created, d1)"
    by (simp add: process_detection_def)
  from process_rules_inv [OF p1] assms(2)
  have saved: "\<forall>r' \<in> set (rules d1). rule_id r' = al_rule a \<longrightarrow> last_triggered r' = Some now"
    by auto
  from assms(3) have p2: "process_rules env now' ev2 (applicable_rules d1 ev2) [] d1 = (res2, d2)"
    by (simp add: process_detection_def)
  from process_rules_inv [OF p2] obtain new where new:
    "alerts d2 = alerts d1 @ new"
    "\<forall>b \<in> set new. \<exists>r \<in> set (applicable_rules d1 ev2). al_rule b = rule_id r
                                       \<and> should_trigger_alert now' r ev2 = Inr True"
    by blast
  have "\<forall>b \<in> set new. al_rule b \<noteq> al_rule a"
  proof
    fix b assume "b \<in> set new"
    with new(2) obtain r where r: "r \<in> set (applicable_rules d1 ev2)" "al_rule b = rule_id r"
        "should_trigger_alert now' r ev2 = Inr True"
      by blast
    from r(1) have rin: "r \<in> set (rules d1)"
      by (simp add: applicable_rules_def)
    show "al_rule b \<noteq> al_rule a"
    proof
      assume "al_rule b = al_rule a"
      with r(2) have id: "rule_id r = al_rule a" by simp
      with saved rin have lt: "last_triggered r = Some now" by blast
      from assms(4) rin id
      have "\<forall>cooldown. timedelta_minutes (cooldown_minutes r) = Inr cooldown
                       \<longrightarrow> now' - now < cooldown"
        by blast
      with lt have "cooldown_test now' r \<noteq> Inr False"
        by (auto simp add: cooldown_test_def split: sum.splits)
      then have "should_trigger_alert now' r ev2 \<noteq> Inr True"
        by (rule held_back_no_match)
      with r(3) show False by simp
    qed
  qed
  with new(1) show ?thesis by blast
qed

lemma demo_first_run_facts:
  "\<not> isl (fst demo_first_run)"
  "projr (fst demo_first_run) \<noteq> []"
  "list_all (\<lambda>r. case timedelta_minutes (cooldown_minutes r) of
                       Inl e \<Rightarrow> False | Inr cooldown \<Rightarrow> 7 - 7 < cooldown)
            (rules (snd demo_first_run))"
  "map al_rule (alerts (snd demo_first_run)) = [1]"
  by code_simp+

theorem sequential_detections_gated_witness:
  "process_detection (demo_env 200) 7 demo_event demo_shop
     = (Inr (projr (fst demo_first_run)), snd demo_first_run)
   \<and> hd (projr (fst demo_first_run)) \<in> set (projr (fst demo_first_run))
   \<and> list_all (\<lambda>r. case timedelta_minutes (cooldown_minutes r) of
                       Inl e \<Rightarrow> False | Inr cooldown \<Rightarrow> 7 - 7 < cooldown)
            (rules (snd demo_first_run))
   \<and> map al_rule (alerts (snd demo_first_run)) = [1]
   \<and> (\<exists>new. alerts (snd (process_detection (demo_env 200) 7 demo_event2 (snd demo_first_run)))
               = alerts (snd demo_first_run) @ new
           \<and> (\<forall>b \<in> set new. al_rule b \<noteq> al_rule (hd (projr (fst demo_first_run)))))"
proof -
  have "fst demo_first_run = Inr (projr (fst demo_first_run))"
    using demo_first_run_facts(1) by (cases "fst demo_first_run") simp_all
  then have "demo_first_run = (Inr (projr (fst demo_first_run)), snd demo_first_run)"
    by (simp add: prod_eq_iff)
  then have h1: "process_detection (demo_env 200) 7 demo_event demo_shop
     = (Inr (projr (fst demo_first_run)), snd demo_first_run)"
    by (simp only: demo_first_run_def)
  have h2: "hd (projr (fst demo_first_run)) \<in> set (projr (fst demo_first_run))"
    using demo_first_run_facts(2) by (rule hd_in_set)
  have h3: "process_detection (demo_env 200) 7 demo_event2 (snd demo_first_run)
            = (fst (process_detection (demo_env 200) 7 demo_event2 (snd demo_first_run)),
               snd (process_detection (demo_env 200) 7 demo_event2 (snd demo_first_run)))"
    by (rule prod.collapse [symmetric])
  have h4: "\<forall>r \<in> set (rules (snd demo_first_run)).
              rule_id r = al_rule (hd (projr (fst demo_first_run)))
              \<longrightarrow> (\<forall>cooldown. timedelta_minutes (cooldown_minutes r) = Inr cooldown
                              \<longrightarrow> 7 - 7 < cooldown)"
    using demo_first_run_facts(3) by (auto simp add: list_all_iff)
  note c = sequential_detections_gated [OF h1 h2 h3 h4]
  show ?thesis
    by (rule conjI [OF h1 conjI [OF h2 conjI [OF demo_first_run_facts(3)
                 conjI [OF demo_first_run_facts(4) c]]]])
qed

text \<open>
  The race itself: two workers read the rule "Vol" from the same table, both detections
  pass the gate, and when the second worker runs on with its copy after the first has
  finished, the table holds two alerts of rule 1.
\<close>

theorem stale_rule_read_counterexample:
  "should_trigger_alert 7 demo_rule demo_event = Inr True
   \<and> should_trigger_alert 7 demo_rule demo_event2 = Inr True
   \<and> applicable_rules demo_shop demo_event = [demo_rule]
   \<and> applicable_rules demo_shop demo_event2 = [demo_rule]
   \<and> map al_rule
        (alerts (snd (process_rules (demo_env 200) 7 demo_event2 (applicable_rules demo_shop demo_event2) []
                        (snd (process_rules (demo_env 200) 7 demo_event
                                (applicable_rules demo_shop demo_event) [] demo_shop)))))
      = [1, 1]"
  by code_simp


section \<open>Acknowledging and resolving\<close>










end
